theory Spec2Isabelle
  imports Main
begin

section \<open>The packaging descriptor \<^verbatim>\<open>setup.py\<close> of MathFinder\<close>

text \<open>
  The source is one Python script, \<^verbatim>\<open>src/server/setup.py\<close>. It binds three
  module-level strings, computes the directory \<^verbatim>\<open>here\<close> that holds the script, defines
  the helper \<^verbatim>\<open>read\<close>, reads \<^verbatim>\<open>README.md\<close> through it and then calls
  \<^verbatim>\<open>setuptools.setup\<close> once with keyword arguments.

  The embedding keeps this shape. Python values that reach \<^verbatim>\<open>setup\<close> are terms of
  \<open>pyval\<close>; a dict is an association list in the order the source writes its keys;
  the keyword arguments of the call are such a list too. File access goes through an
  explicit file system, and an exception is a value of \<open>error\<close>.
\<close>

subsection \<open>Python values\<close>

datatype pyval =
    Str string
  | Bool bool
  | List "pyval list"
  | Dict "(string \<times> pyval) list"

type_synonym kwargs = "(string \<times> pyval) list"

subsection \<open>Module-level names (lines 7 to 9)\<close>

definition entrypoint :: string where
  "entrypoint = ''mathfinder''"

definition pkg_name :: string where
  "pkg_name = entrypoint"

definition description :: string where
  "description = ''HTTP Interface for MathFinder''"

subsection \<open>The file system and \<^verbatim>\<open>os.path.join\<close>\<close>

text \<open>
  A path names nothing, a directory, or a file. \<open>File t\<close> carries the text that a
  text-mode read of the whole file yields. Failures of decoding and of permission are
  outside this model.
\<close>

datatype node = File string | Dir

datatype error = FileNotFoundError | IsADirectoryError

text \<open>
  What the script takes from its surroundings:
  \<^item> \<open>here\<close>: the value of \<^verbatim>\<open>os.path.abspath(os.path.dirname(__file__))\<close> (line 11),
    the directory that contains \<^verbatim>\<open>setup.py\<close>;
  \<^item> \<open>fs\<close>: the file system;
  \<^item> \<open>found_packages\<close>: what \<^verbatim>\<open>find_packages()\<close> returns (line 36).
\<close>

record env =
  here :: string
  fs :: "string \<rightharpoonup> node"
  found_packages :: "string list"

text \<open>\<^verbatim>\<open>b.startswith('/')\<close> and \<^verbatim>\<open>path.endswith('/')\<close>.\<close>

definition startswith_sep :: "string \<Rightarrow> bool" where
  "startswith_sep b = (case b of [] \<Rightarrow> False | c # _ \<Rightarrow> c = CHR ''/'')"

definition endswith_sep :: "string \<Rightarrow> bool" where
  "endswith_sep p = (case rev p of [] \<Rightarrow> False | c # _ \<Rightarrow> c = CHR ''/'')"

text \<open>
  \<^verbatim>\<open>os.path.join(a, *p)\<close> of the POSIX path module: a part that starts with the
  separator replaces what was joined so far; otherwise the part is appended, after a
  separator unless the path so far is empty or already ends with one.
\<close>

fun os_path_join :: "string \<Rightarrow> string list \<Rightarrow> string" where
  "os_path_join path [] = path"
| "os_path_join path (b # bs) =
     os_path_join
       (if startswith_sep b then b
        else if path = [] \<or> endswith_sep path then path @ b
        else path @ ''/'' @ b) bs"

text \<open>\<^verbatim>\<open>codecs.open(path, 'r')\<close>: the open file, or the exception of the open.\<close>

definition codecs_open :: "(string \<rightharpoonup> node) \<Rightarrow> string \<Rightarrow> error + string" where
  "codecs_open files path =
     (case files path of
        None \<Rightarrow> Inl FileNotFoundError
      | Some Dir \<Rightarrow> Inl IsADirectoryError
      | Some (File t) \<Rightarrow> Inr t)"

text \<open>
  \<^verbatim>\<open>read(*parts)\<close> (lines 14 to 16): open the joined path and return \<^verbatim>\<open>fp.read()\<close>;
  an exception of the open leaves the function.
\<close>

definition read :: "env \<Rightarrow> string list \<Rightarrow> error + string" where
  "read e parts =
     (case codecs_open (fs e) (os_path_join (here e) parts) of
        Inl err \<Rightarrow> Inl err
      | Inr fp \<Rightarrow> Inr fp)"

subsection \<open>The call of \<^verbatim>\<open>setup\<close> (lines 21 to 47)\<close>

text \<open>
  The keyword arguments in source order. The f-string of line 30 is the concatenation
  of its pieces.
\<close>

definition setup_kwargs :: "string list \<Rightarrow> string \<Rightarrow> kwargs" where
  "setup_kwargs packages long_description =
     [(''name'', Str pkg_name),
      (''install_requires'',
         List [Str ''tornado'', Str ''connexion'', Str ''swagger-ui-bundle'']),
      (''entry_points'',
         Dict [(''console_scripts'',
                List [Str (entrypoint @ '' = '' @ pkg_name @ ''.server:main'')])]),
      (''package_data'', Dict [(pkg_name, List [Str ''openapi/*.yaml''])]),
      (''packages'', List (map Str packages)),
      (''url'', Str ''''),
      (''license'', Str ''TBD''),
      (''description'', Str description),
      (''long_description'', Str long_description),
      (''zip_safe'', Bool True),
      (''classifiers'',
         List [Str ''Development Status :: 3 - Alpha'',
               Str ''Intended Audience :: Developers'',
               Str ''Programming Language :: Python''])]"

text \<open>
  A run of the script: the exception that ended it, if any, and the calls of
  \<^verbatim>\<open>setup\<close> it made, each with its keyword arguments.
\<close>

record run =
  raised :: "error option"
  setup_calls :: "kwargs list"

text \<open>
  Line 19 reads the README before line 21 calls \<^verbatim>\<open>setup\<close>; an exception at line 19
  ends the script there.
\<close>

definition setup_py :: "env \<Rightarrow> run" where
  "setup_py e =
     (case read e [''README.md''] of
        Inl err \<Rightarrow> \<lparr>raised = Some err, setup_calls = []\<rparr>
      | Inr long_description \<Rightarrow>
          \<lparr>raised = None,
           setup_calls = [setup_kwargs (found_packages e) long_description]\<rparr>)"

subsection \<open>Reading the arguments\<close>

text \<open>A keyword argument by name, and an entry of a dict value by key.\<close>

definition kwarg :: "kwargs \<Rightarrow> string \<Rightarrow> pyval option" where
  "kwarg kw k = map_of kw k"

definition dict_keys :: "pyval \<Rightarrow> string list" where
  "dict_keys v = (case v of Dict d \<Rightarrow> map fst d | _ \<Rightarrow> [])"

definition dict_get :: "pyval \<Rightarrow> string \<Rightarrow> pyval option" where
  "dict_get v k = (case v of Dict d \<Rightarrow> map_of d k | _ \<Rightarrow> None)"

text \<open>The strings of a list value.\<close>

fun strs :: "pyval list \<Rightarrow> string list" where
  "strs [] = []"
| "strs (Str s # vs) = s # strs vs"
| "strs (_ # vs) = strs vs"

text \<open>The value of one group of the \<^verbatim>\<open>entry_points\<close> dict.\<close>

definition entry_point_group :: "kwargs \<Rightarrow> string \<Rightarrow> pyval option" where
  "entry_point_group kw g =
     (case kwarg kw ''entry_points'' of Some ep \<Rightarrow> dict_get ep g | None \<Rightarrow> None)"

definition console_scripts :: "kwargs \<Rightarrow> string list" where
  "console_scripts kw =
     (case entry_point_group kw ''console_scripts'' of
        Some (List vs) \<Rightarrow> strs vs
      | _ \<Rightarrow> [])"

text \<open>The patterns that \<^verbatim>\<open>package_data\<close> gives for a package.\<close>

definition package_data_for :: "kwargs \<Rightarrow> string \<Rightarrow> pyval option" where
  "package_data_for kw p =
     (case kwarg kw ''package_data'' of Some pd \<Rightarrow> dict_get pd p | None \<Rightarrow> None)"

subsection \<open>The syntax of entry points and of requirements\<close>

text \<open>
  The packaging tool reads a console script \<^verbatim>\<open>name = module:attr\<close>: the command name
  before the equals sign, the dotted module and the dotted attribute after it, with
  blanks around each ignored. \<open>parse_entry_point\<close> reads this form and no other.
\<close>

definition is_space :: "char \<Rightarrow> bool" where
  "is_space c = (c \<in> set [CHR '' '', CHR 0x09, CHR 0x0A, CHR 0x0B, CHR 0x0C, CHR 0x0D])"

definition strip :: "string \<Rightarrow> string" where
  "strip s = rev (dropWhile is_space (rev (dropWhile is_space s)))"

text \<open>\<^verbatim>\<open>s.partition(c)\<close> when \<open>c\<close> occurs in \<open>s\<close>.\<close>

definition partition_at :: "char \<Rightarrow> string \<Rightarrow> (string \<times> string) option" where
  "partition_at c s =
     (if c \<in> set s
      then Some (takeWhile (\<lambda>x. x \<noteq> c) s, tl (dropWhile (\<lambda>x. x \<noteq> c) s))
      else None)"

definition word_char :: "char \<Rightarrow> bool" where
  "word_char c =
     (c \<in> set ''abcdefghijklmnopqrstuvwxyzABCDEFGHIJKLMNOPQRSTUVWXYZ0123456789_'')"

definition dotted_name :: "string \<Rightarrow> bool" where
  "dotted_name s = (s \<noteq> [] \<and> list_all (\<lambda>c. word_char c \<or> c = CHR ''.'') s)"

definition parse_entry_point :: "string \<Rightarrow> (string \<times> string \<times> string) option" where
  "parse_entry_point line =
     (case partition_at CHR ''='' line of
        None \<Rightarrow> None
      | Some (l, r) \<Rightarrow>
          (case partition_at CHR '':'' r of
             None \<Rightarrow> None
           | Some (m, a) \<Rightarrow>
               (if strip l \<noteq> [] \<and> dotted_name (strip m) \<and> dotted_name (strip a)
                then Some (strip l, strip m, strip a)
                else None)))"

text \<open>The first component of a dotted module name.\<close>

definition top_level :: "string \<Rightarrow> string" where
  "top_level m = takeWhile (\<lambda>c. c \<noteq> CHR ''.'') m"

text \<open>
  A requirement that is a project name and nothing else (letters, digits, dot,
  underscore, hyphen) carries no version specifier, extra, marker or URL.
\<close>

definition bare_requirement :: "string \<Rightarrow> bool" where
  "bare_requirement r =
     (r \<noteq> [] \<and> list_all (\<lambda>c. word_char c \<or> c = CHR ''.'' \<or> c = CHR ''-'') r)"

subsection \<open>Two concrete surroundings\<close>

text \<open>A checkout with a README beside the script, and one without.\<close>

definition checkout_with_readme :: env where
  "checkout_with_readme =
     \<lparr>here = ''/srv/mathfinder'',
      fs = [''/srv/mathfinder'' \<mapsto> Dir,
            ''/srv/mathfinder/README.md'' \<mapsto> File ''# MathFinder''],
      found_packages = [''mathfinder'']\<rparr>"

definition checkout_without_readme :: env where
  "checkout_without_readme =
     \<lparr>here = ''/srv/mathfinder'',
      fs = [''/srv/mathfinder'' \<mapsto> Dir],
      found_packages = [''mathfinder'']\<rparr>"

section \<open>Properties\<close>

subsection \<open>Supporting facts\<close>

lemmas arg_defs =
  kwarg_def dict_get_def dict_keys_def entry_point_group_def console_scripts_def
  package_data_for_def setup_kwargs_def entrypoint_def pkg_name_def

lemmas parse_defs =
  parse_entry_point_def partition_at_def strip_def is_space_def dotted_name_def
  word_char_def

lemma console_scripts_fstring:
  "console_scripts (setup_kwargs ps ld) = [entrypoint @ '' = '' @ pkg_name @ ''.server:main'']"
  by (simp add: kwarg_def dict_get_def entry_point_group_def console_scripts_def
      setup_kwargs_def)

lemma console_scripts_literal:
  "console_scripts (setup_kwargs ps ld) = [''mathfinder = mathfinder.server:main'']"
  by (simp add: console_scripts_fstring entrypoint_def pkg_name_def)

lemma parse_console_script:
  "parse_entry_point ''mathfinder = mathfinder.server:main'' =
     Some (''mathfinder'', ''mathfinder.server'', ''main'')"
  by (simp add: parse_defs)

lemma os_path_join_single:
  "os_path_join h [b] =
     (if startswith_sep b then b
      else if h = [] \<or> endswith_sep h then h @ b
      else h @ ''/'' @ b)"
  by simp

text \<open>A part that starts with the separator discards everything joined before it.\<close>

lemma os_path_join_append:
  "os_path_join h (as @ bs) = os_path_join (os_path_join h as) bs"
  by (induction as arbitrary: h) simp_all

lemma os_path_join_absolute_part:
  assumes "startswith_sep b"
  shows "os_path_join h (as @ b # bs) = os_path_join b bs"
  using assms by (simp add: os_path_join_append)

text \<open>The script calls \<^verbatim>\<open>setup\<close> at most once, and not at all when it raised.\<close>

lemma setup_py_calls:
  "setup_calls (setup_py e) =
     (case read e [''README.md''] of
        Inl err \<Rightarrow> []
      | Inr ld \<Rightarrow> [setup_kwargs (found_packages e) ld])"
  by (simp add: setup_py_def split: sum.splits)

lemma raised_iff_no_setup_call:
  "(raised (setup_py e) = None) = (length (setup_calls (setup_py e)) = 1)"
  by (simp add: setup_py_def split: sum.splits)

subsection \<open>The console entry point\<close>

text \<open>
  C1. The \<^verbatim>\<open>console_scripts\<close> group that the call of \<^verbatim>\<open>setup\<close> registers is the one
  line \<^verbatim>\<open>mathfinder = mathfinder.server:main\<close>: it binds the command name
  \<^verbatim>\<open>mathfinder\<close> to the callable \<^verbatim>\<open>main\<close> of the module \<^verbatim>\<open>mathfinder.server\<close>.
\<close>

theorem console_script_binds_server_main:
  "console_scripts (setup_kwargs ps ld) = [''mathfinder = mathfinder.server:main'']
   \<and> map parse_entry_point (console_scripts (setup_kwargs ps ld)) =
       [Some (''mathfinder'', ''mathfinder.server'', ''main'')]"
  by (simp add: console_scripts_literal parse_console_script)

text \<open>
  C2. The \<^verbatim>\<open>entry_points\<close> dict has the single group \<^verbatim>\<open>console_scripts\<close>, that
  group is a list with a single entry, and the command name of the entry is
  \<^verbatim>\<open>mathfinder\<close>: installing creates exactly one console command, of this name.
\<close>

theorem exactly_one_console_command:
  "map_option dict_keys (kwarg (setup_kwargs ps ld) ''entry_points'') =
     Some [''console_scripts'']
   \<and> entry_point_group (setup_kwargs ps ld) ''console_scripts'' =
       Some (List [Str ''mathfinder = mathfinder.server:main''])
   \<and> length (console_scripts (setup_kwargs ps ld)) = 1
   \<and> map (map_option fst \<circ> parse_entry_point) (console_scripts (setup_kwargs ps ld)) =
       [Some ''mathfinder'']"
  by (simp add: console_scripts_literal parse_console_script) (simp add: arg_defs)

subsection \<open>Dependencies, package data, keywords\<close>

text \<open>
  C3. The \<^verbatim>\<open>install_requires\<close> argument is the list of exactly three requirements
  \<^verbatim>\<open>tornado\<close>, \<^verbatim>\<open>connexion\<close>, \<^verbatim>\<open>swagger-ui-bundle\<close>, in this order, and each of
  them is a bare project name without a version constraint.
\<close>

theorem install_requires_three_unversioned:
  "kwarg (setup_kwargs ps ld) ''install_requires'' =
     Some (List [Str ''tornado'', Str ''connexion'', Str ''swagger-ui-bundle''])
   \<and> list_all bare_requirement [''tornado'', ''connexion'', ''swagger-ui-bundle'']"
  by (simp add: kwarg_def setup_kwargs_def bare_requirement_def word_char_def)

text \<open>
  C4. The \<^verbatim>\<open>package_data\<close> argument is a dict with the one key \<^verbatim>\<open>mathfinder\<close>,
  whose value is the one pattern \<^verbatim>\<open>openapi/*.yaml\<close>; it gives patterns to the package
  \<^verbatim>\<open>mathfinder\<close> and to no other package.
\<close>

theorem package_data_only_mathfinder_openapi_yaml:
  "kwarg (setup_kwargs ps ld) ''package_data'' =
     Some (Dict [(''mathfinder'', List [Str ''openapi/*.yaml''])])
   \<and> package_data_for (setup_kwargs ps ld) p =
       (if p = ''mathfinder'' then Some (List [Str ''openapi/*.yaml'']) else None)"
  by (simp add: arg_defs)

text \<open>
  C5. The call of \<^verbatim>\<open>setup\<close> passes exactly the eleven keywords listed below, among
  them \<^verbatim>\<open>name\<close>, \<^verbatim>\<open>install_requires\<close>, \<^verbatim>\<open>entry_points\<close> and \<^verbatim>\<open>classifiers\<close>;
  there is no \<^verbatim>\<open>version\<close> keyword.
\<close>

theorem setup_call_has_no_version:
  "map fst (setup_kwargs ps ld) =
     [''name'', ''install_requires'', ''entry_points'', ''package_data'', ''packages'',
      ''url'', ''license'', ''description'', ''long_description'', ''zip_safe'',
      ''classifiers'']
   \<and> kwarg (setup_kwargs ps ld) ''version'' = None"
  by (simp add: arg_defs)

subsection \<open>One name throughout\<close>

text \<open>
  C6. \<^verbatim>\<open>pkg_name\<close> is \<^verbatim>\<open>entrypoint\<close>, which is \<^verbatim>\<open>mathfinder\<close>. The only \<^verbatim>\<open>name\<close>
  keyword is \<^verbatim>\<open>entrypoint\<close>; the only console script is built from \<^verbatim>\<open>entrypoint\<close>
  and \<^verbatim>\<open>pkg_name\<close>, and both its command name and the top-level package of its target
  module are \<^verbatim>\<open>entrypoint\<close>; the only key of \<^verbatim>\<open>package_data\<close> is \<^verbatim>\<open>pkg_name\<close>.
\<close>

theorem one_name_from_entrypoint:
  "pkg_name = entrypoint \<and> entrypoint = ''mathfinder''
   \<and> filter (\<lambda>(k, v). k = ''name'') (setup_kwargs ps ld) = [(''name'', Str entrypoint)]
   \<and> console_scripts (setup_kwargs ps ld) =
       [entrypoint @ '' = '' @ pkg_name @ ''.server:main'']
   \<and> map (map_option (\<lambda>(n, m, a). (n, top_level m)) \<circ> parse_entry_point)
        (console_scripts (setup_kwargs ps ld)) = [Some (entrypoint, entrypoint)]
   \<and> map_option dict_keys (kwarg (setup_kwargs ps ld) ''package_data'') = Some [pkg_name]"
proof -
  have "map (map_option (\<lambda>(n, m, a). (n, top_level m)) \<circ> parse_entry_point)
          (console_scripts (setup_kwargs ps ld)) = [Some (''mathfinder'', ''mathfinder'')]"
    by (simp add: console_scripts_literal parse_console_script top_level_def)
  moreover have "filter (\<lambda>(k, v). k = ''name'') (setup_kwargs ps ld) =
      [(''name'', Str entrypoint)]"
    by (simp add: setup_kwargs_def pkg_name_def)
  moreover have "map_option dict_keys (kwarg (setup_kwargs ps ld) ''package_data'') =
      Some [pkg_name]"
    by (simp add: kwarg_def dict_keys_def setup_kwargs_def)
  ultimately show ?thesis
    by (simp add: console_scripts_fstring) (simp add: entrypoint_def pkg_name_def)
qed

subsection \<open>Reading the README\<close>

text \<open>
  C7. For every list of path parts, when a file is at the path that \<^verbatim>\<open>os.path.join\<close>
  gives for \<^verbatim>\<open>here\<close> and the parts, \<^verbatim>\<open>read\<close> returns the whole text of that file.
  So when \<^verbatim>\<open>README.md\<close> is a file in the directory of the script, the script raises
  nothing and calls \<^verbatim>\<open>setup\<close> once, with that file's whole text as
  \<^verbatim>\<open>long_description\<close>. The path read is \<^verbatim>\<open>README.md\<close> directly under \<^verbatim>\<open>here\<close>.
\<close>

theorem read_returns_file_text:
  "(fs e (os_path_join (here e) parts) = Some (File txt) \<longrightarrow> read e parts = Inr txt)
   \<and> (fs e (os_path_join (here e) [''README.md'']) = Some (File readme) \<longrightarrow>
        raised (setup_py e) = None
        \<and> map (\<lambda>kw. kwarg kw ''long_description'') (setup_calls (setup_py e)) =
            [Some (Str readme)])
   \<and> os_path_join (here e) [''README.md''] =
       (if here e = [] \<or> endswith_sep (here e) then here e @ ''README.md''
        else here e @ ''/README.md'')"
  by (simp add: read_def codecs_open_def setup_py_def kwarg_def setup_kwargs_def
      startswith_sep_def)

theorem read_returns_file_text_witness:
  "fs checkout_with_readme (os_path_join (here checkout_with_readme) [''README.md'']) =
     Some (File ''# MathFinder'')
   \<and> read checkout_with_readme [''README.md''] = Inr ''# MathFinder''
   \<and> raised (setup_py checkout_with_readme) = None
   \<and> map (\<lambda>kw. kwarg kw ''long_description'') (setup_calls (setup_py checkout_with_readme)) =
       [Some (Str ''# MathFinder'')]
   \<and> os_path_join (here checkout_with_readme) [''README.md''] = ''/srv/mathfinder/README.md''"
  using read_returns_file_text
    [of checkout_with_readme "[''README.md'']" "''# MathFinder''" "''# MathFinder''"]
  by (simp add: checkout_with_readme_def startswith_sep_def endswith_sep_def)

text \<open>
  C8. When nothing is at the path of \<^verbatim>\<open>README.md\<close> in the directory of the script,
  the script ends with the exception of the open in \<^verbatim>\<open>read\<close>, and it has not called
  \<^verbatim>\<open>setup\<close>.
\<close>

theorem missing_readme_raises_before_setup:
  assumes "fs e (os_path_join (here e) [''README.md'']) = None"
  shows "raised (setup_py e) = Some FileNotFoundError \<and> setup_calls (setup_py e) = []"
  using assms by (simp add: read_def codecs_open_def setup_py_def)

theorem missing_readme_raises_before_setup_witness:
  "fs checkout_without_readme (os_path_join (here checkout_without_readme) [''README.md'']) =
     None
   \<and> raised (setup_py checkout_without_readme) = Some FileNotFoundError
   \<and> setup_calls (setup_py checkout_without_readme) = []"
  using missing_readme_raises_before_setup [of checkout_without_readme]
  by (simp add: checkout_without_readme_def startswith_sep_def endswith_sep_def)

end
